theory Spec2Isabelle
  imports Complex_Main "HOL-Library.AList"
begin

section \<open>Metrics and insights engine of the content pipeline\<close>

text \<open>
  A shallow embedding of the pure numeric methods of \<^verbatim>\<open>PerformanceAnalyzer\<close> in
  \<^verbatim>\<open>src/performance_analyzer.py\<close>: \<^verbatim>\<open>calculate_metrics\<close> with
  \<^verbatim>\<open>_calculate_engagement_score\<close>, \<^verbatim>\<open>compare_to_benchmarks\<close>,
  \<^verbatim>\<open>suggest_optimization\<close> and \<^verbatim>\<open>identify_trends\<close>.

  Conventions of the model.
  \<^item> Python's unbounded \<^verbatim>\<open>int\<close> is \<^typ>\<open>int\<close>. Python's \<^verbatim>\<open>float\<close> is idealised as
    \<^typ>\<open>rat\<close>: every arithmetic operation is exact, so the binary rounding error, the
    finite range and the special values of IEEE doubles are outside the model.
  \<^item> A dictionary read with \<^verbatim>\<open>d.get(k, 0)\<close> is a map \<open>string \<rightharpoonup> number\<close> and the default
    is written out. A dictionary whose order of insertion is observable
    (\<^verbatim>\<open>benchmarks\<close>, \<^verbatim>\<open>by_persona\<close>, \<^verbatim>\<open>trends\<close>) is an association list with distinct
    keys, assigned to with \<^const>\<open>AList.update\<close>: an existing key keeps its place, a new
    key goes to the end, as in Python.
  \<^item> Python's \<^verbatim>\<open>/\<close> raises \<^verbatim>\<open>ZeroDivisionError\<close> on a zero divisor. Every division of
    the source is the fallible \<open>truediv\<close>, and every function that divides returns
    \<open>py_error + result\<close>.
\<close>

subsection \<open>Python primitives\<close>

datatype py_error = ZeroDivisionError

definition truediv :: "rat \<Rightarrow> rat \<Rightarrow> py_error + rat" where
  "truediv a b = (if b = 0 then Inl ZeroDivisionError else Inr (a / b))"

text \<open>
  An exception leaves the function at once: \<open>try_then r f\<close> continues with \<open>f\<close> on the value
  of \<open>r\<close> and propagates its error otherwise.
\<close>

definition try_then :: "py_error + 'a \<Rightarrow> ('a \<Rightarrow> py_error + 'b) \<Rightarrow> py_error + 'b" where
  "try_then r f = (case r of Inl e \<Rightarrow> Inl e | Inr v \<Rightarrow> f v)"

text \<open>
  \<^verbatim>\<open>round(x, n)\<close> of Python rounds to the nearest multiple of \<open>10\<^sup>-\<^sup>n\<close> and, at an exact
  tie, to the one whose last digit is even.
\<close>

definition round_half_even :: "rat \<Rightarrow> int" where
  "round_half_even x =
     (let f = \<lfloor>x\<rfloor>; d = x - of_int f
      in if d < 1 / 2 then f
         else if 1 / 2 < d then f + 1
         else if even f then f else f + 1)"

definition py_round :: "rat \<Rightarrow> nat \<Rightarrow> rat" where
  "py_round x n = of_int (round_half_even (x * 10 ^ n)) / 10 ^ n"

text \<open>\<^verbatim>\<open>d.get(k, 0)\<close> on a dictionary of integer counts and on one of numbers.\<close>

definition get_count :: "(string \<rightharpoonup> int) \<Rightarrow> string \<Rightarrow> int" where
  "get_count d k = (case d k of None \<Rightarrow> 0 | Some v \<Rightarrow> v)"

definition get_num :: "(string \<rightharpoonup> rat) \<Rightarrow> string \<Rightarrow> rat" where
  "get_num d k = (case d k of None \<Rightarrow> 0 | Some v \<Rightarrow> v)"

subsection \<open>RateCalculator: \<^verbatim>\<open>calculate_metrics\<close>\<close>

text \<open>
  \<^verbatim>\<open>_calculate_engagement_score(opens, clicks, unsubscribes, sent)\<close>; the leading
  underscore of the source's name is dropped.
\<close>

definition calculate_engagement_score :: "int \<Rightarrow> int \<Rightarrow> int \<Rightarrow> int \<Rightarrow> py_error + rat" where
  "calculate_engagement_score opens clicks unsubscribes sent =
     (if sent = 0 then Inr 0
      else
        try_then (truediv (of_int opens) (of_int sent)) (\<lambda>q1.
        let open_score = q1 * 30 in
        try_then (truediv (of_int clicks) (of_int sent)) (\<lambda>q2.
        let click_score = q2 * 50 in
        try_then (truediv (of_int unsubscribes) (of_int sent)) (\<lambda>q3.
        let unsub_penalty = q3 * 20;
            score = max 0 (min 100 ((open_score + click_score - unsub_penalty) * 100))
        in Inr (py_round score 2)))))"

text \<open>The conditional expression \<^verbatim>\<open>a / b if b > 0 else 0\<close>: the division runs only under the guard.\<close>

definition rate_if_positive :: "int \<Rightarrow> int \<Rightarrow> py_error + rat" where
  "rate_if_positive a b = (if 0 < b then truediv (of_int a) (of_int b) else Inr 0)"

definition calculate_metrics :: "(string \<rightharpoonup> int) \<Rightarrow> py_error + (string \<rightharpoonup> rat)" where
  "calculate_metrics raw_data =
     (let sent = get_count raw_data ''sent'';
          opens = get_count raw_data ''opens'';
          clicks = get_count raw_data ''clicks'';
          bounces = get_count raw_data ''bounces'';
          unsubscribes = get_count raw_data ''unsubscribes''
      in
        try_then (rate_if_positive opens sent) (\<lambda>open_rate.
        try_then (rate_if_positive clicks sent) (\<lambda>click_rate.
        try_then (rate_if_positive clicks opens) (\<lambda>click_to_open_rate.
        try_then (rate_if_positive bounces sent) (\<lambda>bounce_rate.
        try_then (rate_if_positive unsubscribes sent) (\<lambda>unsubscribe_rate.
        try_then (calculate_engagement_score opens clicks unsubscribes sent) (\<lambda>engagement_score.
        Inr [''contacts_sent'' \<mapsto> of_int sent,
             ''opens'' \<mapsto> of_int opens,
             ''clicks'' \<mapsto> of_int clicks,
             ''bounces'' \<mapsto> of_int bounces,
             ''unsubscribes'' \<mapsto> of_int unsubscribes,
             ''open_rate'' \<mapsto> open_rate,
             ''click_rate'' \<mapsto> click_rate,
             ''click_to_open_rate'' \<mapsto> click_to_open_rate,
             ''bounce_rate'' \<mapsto> bounce_rate,
             ''unsubscribe_rate'' \<mapsto> unsubscribe_rate,
             ''engagement_score'' \<mapsto> engagement_score])))))))"

subsection \<open>OptimizationRuleEngine: \<^verbatim>\<open>suggest_optimization\<close>\<close>

text \<open>
  The seven message texts of the source. A string is a list of bytes here, so the three
  pictographs that open the last rule messages are written as their UTF-8 bytes
  (U+23F0, U+1F465 and U+2728).
\<close>

definition msg_subject_line :: string where
  "msg_subject_line =
     ''Subject Line: Open rate is below 20%. Try A/B testing subject lines with '' @
     ''personalization, numbers, or urgency to improve opens.''"

definition msg_call_to_action :: string where
  "msg_call_to_action =
     ''Call-to-Action: Click rate is low. Strengthen your CTAs with action verbs, '' @
     ''create urgency, and ensure links are prominent and compelling.''"

definition msg_email_design :: string where
  "msg_email_design =
     ''Email Design: Click-to-open rate is under 30%. Improve email layout, '' @
     ''use more visuals, and make CTAs more prominent.''"

definition msg_send_time :: string where
  "msg_send_time =
     [CHR 0xE2, CHR 0x8F, CHR 0xB0] @
     '' Send Time: Good opens but low clicks suggests timing issues. '' @
     ''Test different send times (Tuesday-Thursday, 10am or 2pm often perform well).''"

definition msg_segmentation :: string where
  "msg_segmentation =
     [CHR 0xF0, CHR 0x9F, CHR 0x91, CHR 0xA5] @
     '' Segmentation: Consider further segmenting your audience based on '' @
     ''engagement history and interests for more personalized content.''"

definition msg_strong_performance :: string where
  "msg_strong_performance =
     [CHR 0xE2, CHR 0x9C, CHR 0xA8] @
     '' Strong Performance! Consider using this as a template for future campaigns. '' @
     ''Document what worked well (timing, subject line, content angle).''"

definition msg_normal_ranges :: string where
  "msg_normal_ranges =
     ''Performance is within normal ranges. Continue monitoring and testing variations.''"

text \<open>
  Each \<^verbatim>\<open>if c: suggestions.append(m)\<close> of the source is one rebinding of
  \<open>suggestions\<close>; \<open>content_context\<close> is a parameter the source never reads.
\<close>

definition suggest_optimization :: "(string \<rightharpoonup> rat) \<Rightarrow> 'c \<Rightarrow> string list" where
  "suggest_optimization metrics content_context =
     (let suggestions = [];
          open_rate = get_num metrics ''open_rate'';
          click_rate = get_num metrics ''click_rate'';
          cto_rate = get_num metrics ''click_to_open_rate'';
          suggestions = (if open_rate < 0.20
                         then suggestions @ [msg_subject_line] else suggestions);
          suggestions = (if click_rate < 0.08
                         then suggestions @ [msg_call_to_action] else suggestions);
          suggestions = (if cto_rate < 0.30
                         then suggestions @ [msg_email_design] else suggestions);
          suggestions = (if 0.25 < open_rate \<and> click_rate < 0.10
                         then suggestions @ [msg_send_time] else suggestions);
          suggestions = (if open_rate < 0.22
                         then suggestions @ [msg_segmentation] else suggestions);
          suggestions = (if 0.30 < open_rate \<and> 0.12 < click_rate
                         then suggestions @ [msg_strong_performance] else suggestions)
      in if suggestions \<noteq> [] then suggestions else [msg_normal_ranges])"

subsection \<open>BenchmarkComparator: \<^verbatim>\<open>compare_to_benchmarks\<close>\<close>

record performance_entry =
  actual :: rat
  benchmark :: rat
  difference :: rat
  difference_percent :: rat
  status :: string

text \<open>
  The body of \<^verbatim>\<open>for metric, benchmark in benchmarks.items()\<close>, run over the items that are
  left, with the \<^verbatim>\<open>comparison['performance']\<close> dictionary built so far.
\<close>

fun compare_loop ::
  "(string \<rightharpoonup> rat) \<Rightarrow> (string \<times> rat) list \<Rightarrow> (string \<times> performance_entry) list
     \<Rightarrow> py_error + (string \<times> performance_entry) list" where
  "compare_loop metrics [] performance = Inr performance"
| "compare_loop metrics (item # rest) performance =
     (let metric = fst item;
          benchmark = snd item;
          actual = get_num metrics metric;
          diff = actual - benchmark
      in
        try_then (if 0 < benchmark
                  then try_then (truediv diff benchmark) (\<lambda>q. Inr (q * 100))
                  else Inr 0) (\<lambda>diff_percent.
        let status = (if 0 < diff then ''above''
                      else if diff < 0 then ''below''
                      else ''at'')
        in compare_loop metrics rest
             (AList.update metric
                \<lparr>actual = actual, benchmark = benchmark, difference = diff,
                 difference_percent = diff_percent, status = status\<rparr>
                performance)))"

text \<open>The dictionary \<^verbatim>\<open>compare_to_benchmarks\<close> returns.\<close>

record comparison =
  metrics :: "string \<rightharpoonup> rat"
  benchmarks :: "(string \<times> rat) list"
  performance :: "(string \<times> performance_entry) list"

definition compare_to_benchmarks :: "(string \<rightharpoonup> rat) \<Rightarrow> py_error + comparison" where
  "compare_to_benchmarks = (\<lambda>metrics.
      let benchmarks = [(''open_rate'', 0.21), (''click_rate'', 0.10),
                        (''unsubscribe_rate'', 0.005)]
      in try_then (compare_loop metrics benchmarks []) (\<lambda>performance.
           Inr \<lparr>metrics = metrics, benchmarks = benchmarks, performance = performance\<rparr>))"

subsection \<open>TrendAnalyzer: \<^verbatim>\<open>identify_trends\<close>\<close>

text \<open>
  A history row is a dictionary; \<^verbatim>\<open>identify_trends\<close> reads three of its keys, each with
  \<^verbatim>\<open>get\<close> and a default, so each of the three may be absent.
\<close>

record history_entry =
  persona :: "string option"
  open_rate :: "rat option"
  click_rate :: "rat option"

record trend =
  campaigns_analyzed :: nat
  avg_open_rate :: rat
  avg_click_rate :: rat
  open_rate_trend :: string
  click_rate_trend :: string
  open_rate_change :: rat
  click_rate_change :: rat

definition get_persona :: "history_entry \<Rightarrow> string" where
  "get_persona data = (case persona data of None \<Rightarrow> ''unknown'' | Some p \<Rightarrow> p)"

definition get_open_rate :: "history_entry \<Rightarrow> rat" where
  "get_open_rate r = (case open_rate r of None \<Rightarrow> 0 | Some v \<Rightarrow> v)"

definition get_click_rate :: "history_entry \<Rightarrow> rat" where
  "get_click_rate r = (case click_rate r of None \<Rightarrow> 0 | Some v \<Rightarrow> v)"

text \<open>
  The grouping loop. The source first stores an empty list under a persona it has not
  seen and then appends to the list stored under the persona; the two steps together
  store the old list (the empty one for a new persona) with the row appended.
\<close>

fun group_loop ::
  "history_entry list \<Rightarrow> (string \<times> history_entry list) list
     \<Rightarrow> (string \<times> history_entry list) list" where
  "group_loop [] by_persona = by_persona"
| "group_loop (data # rest) by_persona =
     (let p = get_persona data;
          records = (case map_of by_persona p of None \<Rightarrow> [] | Some rs \<Rightarrow> rs)
      in group_loop rest (AList.update p (records @ [data]) by_persona))"

text \<open>The trend entry the second loop computes for one group of at least two rows.\<close>

definition persona_trend :: "history_entry list \<Rightarrow> py_error + trend" where
  "persona_trend records =
     try_then (truediv (sum_list (map get_open_rate records)) (of_nat (length records)))
       (\<lambda>avg_open.
     try_then (truediv (sum_list (map get_click_rate records)) (of_nat (length records)))
       (\<lambda>avg_click.
     let mid = length records div 2 in
     try_then (truediv (sum_list (map get_open_rate (take mid records))) (of_nat mid))
       (\<lambda>first_half_open.
     try_then (truediv (sum_list (map get_open_rate (drop mid records)))
                 (of_nat (length records - mid)))
       (\<lambda>second_half_open.
     try_then (truediv (sum_list (map get_click_rate (take mid records))) (of_nat mid))
       (\<lambda>first_half_click.
     try_then (truediv (sum_list (map get_click_rate (drop mid records)))
                 (of_nat (length records - mid)))
       (\<lambda>second_half_click.
     Inr \<lparr>campaigns_analyzed = length records,
          avg_open_rate = avg_open,
          avg_click_rate = avg_click,
          open_rate_trend =
            (if first_half_open < second_half_open then ''improving'' else ''declining''),
          click_rate_trend =
            (if first_half_click < second_half_click then ''improving'' else ''declining''),
          open_rate_change = second_half_open - first_half_open,
          click_rate_change = second_half_click - first_half_click\<rparr>))))))"

fun trends_loop ::
  "(string \<times> history_entry list) list \<Rightarrow> (string \<times> trend) list
     \<Rightarrow> py_error + (string \<times> trend) list" where
  "trends_loop [] trends = Inr trends"
| "trends_loop (item # rest) trends =
     (let p = fst item; records = snd item
      in if length records < 2 then trends_loop rest trends
         else try_then (persona_trend records) (\<lambda>t.
                trends_loop rest (AList.update p t trends)))"

text \<open>
  The result dictionary: the early return has the keys \<^verbatim>\<open>status\<close> and \<^verbatim>\<open>message\<close> only,
  the normal one \<^verbatim>\<open>status\<close>, \<^verbatim>\<open>personas_analyzed\<close>, \<^verbatim>\<open>trends\<close> and \<^verbatim>\<open>analyzed_at\<close>.
  An absent key is \<open>None\<close>.
\<close>

record trends_report =
  status :: string
  message :: "string option"
  personas_analyzed :: "nat option"
  trends :: "(string \<times> trend) list option"
  analyzed_at :: "string option"

text \<open>
  \<open>now\<close> is the text \<^verbatim>\<open>datetime.now().isoformat()\<close> returns when the report is built.
\<close>

definition identify_trends :: "string \<Rightarrow> history_entry list \<Rightarrow> py_error + trends_report" where
  "identify_trends now historical_data =
     (if length historical_data < 2
      then Inr \<lparr>status = ''insufficient_data'',
                message = Some ''Need at least 2 campaigns for trend analysis'',
                personas_analyzed = None, trends = None, analyzed_at = None\<rparr>
      else
        let by_persona = group_loop historical_data []
        in try_then (trends_loop by_persona []) (\<lambda>trends.
             Inr \<lparr>status = ''success'', message = None,
                  personas_analyzed = Some (length trends),
                  trends = Some trends, analyzed_at = Some now\<rparr>))"

section \<open>The specification's formulas\<close>

text \<open>
  Definitions that follow the words of the specification, for comparison with the
  functions above.
\<close>

text \<open>The engagement score formula of the RateCalculator.\<close>

definition spec_engagement_score :: "int \<Rightarrow> int \<Rightarrow> int \<Rightarrow> int \<Rightarrow> rat" where
  "spec_engagement_score opens clicks unsubscribes sent =
     py_round
       (max 0 (min 100
          ((of_int opens / of_int sent * 30 + of_int clicks / of_int sent * 50
              - of_int unsubscribes / of_int sent * 20) * 100)))
       2"

text \<open>
  The rule table of the OptimizationRuleEngine: an ordered sequence of pairs of a
  predicate and a message, and the messages of the rules that match, in table order.
\<close>

definition spec_rule_table :: "(((string \<rightharpoonup> rat) \<Rightarrow> bool) \<times> string) list" where
  "spec_rule_table =
     [(\<lambda>m. get_num m ''open_rate'' < 0.20, msg_subject_line),
      (\<lambda>m. get_num m ''click_rate'' < 0.08, msg_call_to_action),
      (\<lambda>m. get_num m ''click_to_open_rate'' < 0.30, msg_email_design),
      (\<lambda>m. get_num m ''open_rate'' > 0.25 \<and> get_num m ''click_rate'' < 0.10, msg_send_time),
      (\<lambda>m. get_num m ''open_rate'' < 0.22, msg_segmentation),
      (\<lambda>m. get_num m ''open_rate'' > 0.30 \<and> get_num m ''click_rate'' > 0.12,
         msg_strong_performance)]"

definition spec_matching_messages :: "(string \<rightharpoonup> rat) \<Rightarrow> string list" where
  "spec_matching_messages m = map snd (filter (\<lambda>rule. fst rule m) spec_rule_table)"

text \<open>The per-metric comparison of the BenchmarkComparator.\<close>

definition spec_status :: "rat \<Rightarrow> rat \<Rightarrow> string" where
  "spec_status a b = (if b < a then ''above'' else if a < b then ''below'' else ''at'')"

definition spec_entry :: "(string \<rightharpoonup> rat) \<Rightarrow> string \<Rightarrow> rat \<Rightarrow> performance_entry" where
  "spec_entry m k b =
     \<lparr>actual = get_num m k, benchmark = b, difference = get_num m k - b,
      difference_percent = (get_num m k - b) / b * 100,
      status = spec_status (get_num m k) b\<rparr>"

text \<open>
  The TrendAnalyzer: the arithmetic mean, the group of a persona in the caller's order,
  and the trend entry of a group split at \<open>mid = N div 2\<close>.
\<close>

definition spec_mean :: "rat list \<Rightarrow> rat" where
  "spec_mean xs = sum_list xs / of_nat (length xs)"

definition spec_group :: "history_entry list \<Rightarrow> string \<Rightarrow> history_entry list" where
  "spec_group hist p = filter (\<lambda>d. get_persona d = p) hist"

definition spec_trend :: "history_entry list \<Rightarrow> trend" where
  "spec_trend records =
     (let mid = length records div 2;
          first_open = spec_mean (map get_open_rate (take mid records));
          second_open = spec_mean (map get_open_rate (drop mid records));
          first_click = spec_mean (map get_click_rate (take mid records));
          second_click = spec_mean (map get_click_rate (drop mid records))
      in \<lparr>campaigns_analyzed = length records,
           avg_open_rate = spec_mean (map get_open_rate records),
           avg_click_rate = spec_mean (map get_click_rate records),
           open_rate_trend = (if first_open < second_open then ''improving'' else ''declining''),
           click_rate_trend = (if first_click < second_click then ''improving'' else ''declining''),
           open_rate_change = second_open - first_open,
           click_rate_change = second_click - first_click\<rparr>)"

section \<open>Properties of the primitives\<close>

lemma try_then_Inr [simp]: "try_then (Inr v) f = f v"
  by (simp add: try_then_def)

lemma try_then_Inl [simp]: "try_then (Inl e) f = Inl e"
  by (simp add: try_then_def)

lemma truediv_nonzero: "b \<noteq> 0 \<Longrightarrow> truediv a b = Inr (a / b)"
  by (simp add: truediv_def)

text \<open>
  \<open>py_round x 2\<close> is a whole number of hundredths at distance at most half a hundredth
  from \<open>x\<close>, and it does not leave an interval whose ends are whole numbers.
\<close>

lemma round_half_even_close: "\<bar>of_int (round_half_even x) - x\<bar> \<le> 1 / 2"
proof -
  have "of_int \<lfloor>x\<rfloor> \<le> x" "x < of_int \<lfloor>x\<rfloor> + 1" by linarith+
  then show ?thesis by (simp add: round_half_even_def Let_def)
qed

lemma py_round_2_close: "\<bar>py_round x 2 - x\<bar> \<le> 1 / 200"
proof -
  have "\<bar>of_int (round_half_even (x * 100)) - x * 100\<bar> \<le> 1 / 2"
    by (rule round_half_even_close)
  then show ?thesis by (simp add: py_round_def field_simps abs_le_iff)
qed

lemma py_round_2_hundredths: "\<exists>k::int. py_round x 2 = of_int k / 100"
  by (simp add: py_round_def)

lemma round_half_even_lower: "of_int a \<le> x \<Longrightarrow> a \<le> round_half_even x"
proof -
  assume "of_int a \<le> x"
  then have "a \<le> \<lfloor>x\<rfloor>" by (simp add: le_floor_iff)
  then show ?thesis by (simp add: round_half_even_def Let_def)
qed

lemma round_half_even_upper: "x \<le> of_int b \<Longrightarrow> round_half_even x \<le> b"
proof -
  assume h: "x \<le> of_int b"
  then have fb: "\<lfloor>x\<rfloor> \<le> b" by (simp add: floor_le_iff)
  show ?thesis
  proof (cases "\<lfloor>x\<rfloor> = b")
    case True
    then have "x - of_int \<lfloor>x\<rfloor> \<le> 0" using h by simp
    then have "x - of_int \<lfloor>x\<rfloor> < 1 / 2" by linarith
    then show ?thesis using True by (simp add: round_half_even_def Let_def)
  next
    case False
    then have "\<lfloor>x\<rfloor> + 1 \<le> b" using fb by linarith
    then show ?thesis using fb by (simp add: round_half_even_def Let_def)
  qed
qed

lemma py_round_2_bounds:
  assumes "0 \<le> x" "x \<le> 100"
  shows "0 \<le> py_round x 2 \<and> py_round x 2 \<le> 100"
proof -
  have "of_int 0 \<le> x * 10 ^ 2" using assms by simp
  then have lo: "0 \<le> round_half_even (x * 10 ^ 2)" by (rule round_half_even_lower)
  have "x * 10 ^ 2 \<le> of_int 10000" using assms by simp
  then have hi: "round_half_even (x * 10 ^ 2) \<le> 10000" by (rule round_half_even_upper)
  have "(of_int (round_half_even (x * 10 ^ 2)) :: rat) \<le> of_int 10000"
    using hi by (simp only: of_int_le_iff)
  then show ?thesis using lo by (simp add: py_round_def)
qed

section \<open>RateCalculator\<close>

lemma rate_if_positive_total:
  "rate_if_positive a b = Inr (if 0 < b then of_int a / of_int b else 0)"
  by (simp add: rate_if_positive_def truediv_def)

lemma calculate_engagement_score_total:
  "calculate_engagement_score opens clicks unsubscribes sent =
     Inr (if sent = 0 then 0 else spec_engagement_score opens clicks unsubscribes sent)"
  by (simp add: calculate_engagement_score_def spec_engagement_score_def truediv_def Let_def)

lemma spec_engagement_score_bounds:
  "0 \<le> spec_engagement_score opens clicks unsubscribes sent \<and>
   spec_engagement_score opens clicks unsubscribes sent \<le> 100"
  unfolding spec_engagement_score_def by (rule py_round_2_bounds) simp_all

text \<open>No division of \<open>calculate_metrics\<close> fails: the result is this dictionary.\<close>

lemma calculate_metrics_total:
  "calculate_metrics raw_data =
     (let sent = get_count raw_data ''sent'';
          opens = get_count raw_data ''opens'';
          clicks = get_count raw_data ''clicks'';
          bounces = get_count raw_data ''bounces'';
          unsubscribes = get_count raw_data ''unsubscribes''
      in Inr [''contacts_sent'' \<mapsto> of_int sent,
             ''opens'' \<mapsto> of_int opens,
             ''clicks'' \<mapsto> of_int clicks,
             ''bounces'' \<mapsto> of_int bounces,
             ''unsubscribes'' \<mapsto> of_int unsubscribes,
             ''open_rate'' \<mapsto> (if 0 < sent then of_int opens / of_int sent else 0),
             ''click_rate'' \<mapsto> (if 0 < sent then of_int clicks / of_int sent else 0),
             ''click_to_open_rate'' \<mapsto> (if 0 < opens then of_int clicks / of_int opens else 0),
             ''bounce_rate'' \<mapsto> (if 0 < sent then of_int bounces / of_int sent else 0),
             ''unsubscribe_rate'' \<mapsto> (if 0 < sent then of_int unsubscribes / of_int sent else 0),
             ''engagement_score'' \<mapsto>
                (if sent = 0 then 0 else spec_engagement_score opens clicks unsubscribes sent)])"
  unfolding calculate_metrics_def Let_def rate_if_positive_total calculate_engagement_score_total
    try_then_Inr ..







section \<open>OptimizationRuleEngine\<close>

text \<open>The default message is none of the six rule messages.\<close>

lemma msg_normal_ranges_distinct:
  "msg_normal_ranges \<noteq> msg_subject_line" "msg_normal_ranges \<noteq> msg_call_to_action"
  "msg_normal_ranges \<noteq> msg_email_design" "msg_normal_ranges \<noteq> msg_send_time"
  "msg_normal_ranges \<noteq> msg_segmentation" "msg_normal_ranges \<noteq> msg_strong_performance"
  by (simp_all add: msg_normal_ranges_def msg_subject_line_def msg_call_to_action_def
      msg_email_design_def msg_send_time_def msg_segmentation_def msg_strong_performance_def)

text \<open>
  C4. \<open>suggest_optimization\<close> evaluates its six threshold rules independently and in the
  order of their declaration: the list it returns holds exactly the messages of the rules
  that match, in that order, and it is the single default message when no rule matches.
\<close>

theorem suggest_optimization_rule_table:
  "suggest_optimization m content_context =
     (if spec_matching_messages m = [] then [msg_normal_ranges] else spec_matching_messages m)"
  by (simp add: suggest_optimization_def spec_matching_messages_def spec_rule_table_def Let_def)

theorem suggest_optimization_rule_table_witness:
  "suggest_optimization
     [''open_rate'' \<mapsto> 0.15, ''click_rate'' \<mapsto> 0.05, ''click_to_open_rate'' \<mapsto> 0.20] () =
     [msg_subject_line, msg_call_to_action, msg_email_design, msg_segmentation] \<and>
   suggest_optimization
     [''open_rate'' \<mapsto> 0.23, ''click_rate'' \<mapsto> 0.10, ''click_to_open_rate'' \<mapsto> 0.40] () =
     [msg_normal_ranges]"
  using suggest_optimization_rule_table
          [of "[''open_rate'' \<mapsto> 0.15, ''click_rate'' \<mapsto> 0.05, ''click_to_open_rate'' \<mapsto> 0.20]" "()"]
        suggest_optimization_rule_table
          [of "[''open_rate'' \<mapsto> 0.23, ''click_rate'' \<mapsto> 0.10, ''click_to_open_rate'' \<mapsto> 0.40]" "()"]
  by (simp add: spec_matching_messages_def spec_rule_table_def get_num_def)

text \<open>
  C5, as amended. With \<open>open_rate = 0.35\<close>, \<open>click_rate = 0.15\<close> and no other field, the
  absent \<open>click_to_open_rate\<close> reads as 0, so rule 3 fires together with rule 6 and the
  result is the design suggestion followed by the strong-performance suggestion. Rule 6
  fires alone when a \<open>click_to_open_rate\<close> of at least 0.30 is supplied as well.
\<close>

theorem suggest_optimization_rules_3_and_6:
  "suggest_optimization [''open_rate'' \<mapsto> 0.35, ''click_rate'' \<mapsto> 0.15] content_context =
     [msg_email_design, msg_strong_performance] \<and>
   (0.30 \<le> c \<longrightarrow>
      suggest_optimization
        [''open_rate'' \<mapsto> 0.35, ''click_rate'' \<mapsto> 0.15, ''click_to_open_rate'' \<mapsto> c]
        content_context = [msg_strong_performance])"
  by (simp add: suggest_optimization_def Let_def get_num_def)

theorem suggest_optimization_rules_3_and_6_witness:
  "(0.30 :: rat) \<le> 0.40 \<and>
   suggest_optimization
     [''open_rate'' \<mapsto> 0.35, ''click_rate'' \<mapsto> 0.15, ''click_to_open_rate'' \<mapsto> 0.40] () =
     [msg_strong_performance]"
  using suggest_optimization_rules_3_and_6 [of "()" "0.40"] by simp

text \<open>
  The result for these two fields alone is not the single strong-performance suggestion.
\<close>

theorem suggest_optimization_only_rule_6_counterexample:
  "suggest_optimization [''open_rate'' \<mapsto> 0.35, ''click_rate'' \<mapsto> 0.15] () \<noteq>
     [msg_strong_performance]"
  by (simp add: suggest_optimization_def Let_def get_num_def)

text \<open>
  C10. \<open>suggest_optimization\<close> returns a non-empty list of at most six strings; the
  default message is in it exactly when none of the six threshold predicates holds, and
  then it is the only element.
\<close>

theorem suggest_optimization_shape:
  "suggest_optimization m content_context \<noteq> [] \<and>
   length (suggest_optimization m content_context) \<le> 6 \<and>
   (msg_normal_ranges \<in> set (suggest_optimization m content_context) \<longleftrightarrow>
      \<not> (get_num m ''open_rate'' < 0.20 \<or> get_num m ''click_rate'' < 0.08 \<or>
         get_num m ''click_to_open_rate'' < 0.30 \<or>
         (0.25 < get_num m ''open_rate'' \<and> get_num m ''click_rate'' < 0.10) \<or>
         get_num m ''open_rate'' < 0.22 \<or>
         (0.30 < get_num m ''open_rate'' \<and> 0.12 < get_num m ''click_rate''))) \<and>
   (msg_normal_ranges \<in> set (suggest_optimization m content_context) \<longrightarrow>
      suggest_optimization m content_context = [msg_normal_ranges])"
  using msg_normal_ranges_distinct
  by (simp add: suggest_optimization_def Let_def)

theorem suggest_optimization_shape_witness:
  "msg_normal_ranges \<in> set (suggest_optimization
       [''open_rate'' \<mapsto> 0.23, ''click_rate'' \<mapsto> 0.10, ''click_to_open_rate'' \<mapsto> 0.40] ()) \<and>
   suggest_optimization
       [''open_rate'' \<mapsto> 0.23, ''click_rate'' \<mapsto> 0.10, ''click_to_open_rate'' \<mapsto> 0.40] () =
     [msg_normal_ranges]"
  using suggest_optimization_shape
          [of "[''open_rate'' \<mapsto> 0.23, ''click_rate'' \<mapsto> 0.10, ''click_to_open_rate'' \<mapsto> 0.40]" "()"]
  by (simp add: get_num_def)

section \<open>BenchmarkComparator\<close>

text \<open>
  Each benchmark is positive, so the guarded division runs and does not fail: one turn of
  the loop stores the entry of the specification.
\<close>

lemma compare_loop_step:
  "0 < b \<Longrightarrow> compare_loop m ((k, b) # rest) perf =
     compare_loop m rest (AList.update k (spec_entry m k b) perf)"
  by (simp add: Let_def truediv_def spec_entry_def spec_status_def)

lemma compare_to_benchmarks_total:
  "compare_to_benchmarks m =
     Inr \<lparr>metrics = m,
          benchmarks = [(''open_rate'', 0.21), (''click_rate'', 0.10), (''unsubscribe_rate'', 0.005)],
          performance =
            [(''open_rate'', spec_entry m ''open_rate'' 0.21),
             (''click_rate'', spec_entry m ''click_rate'' 0.10),
             (''unsubscribe_rate'', spec_entry m ''unsubscribe_rate'' 0.005)]\<rparr>"
  by (simp add: compare_to_benchmarks_def compare_loop_step del: compare_loop.simps(2))

lemma spec_entry_props:
  "0 < b \<Longrightarrow>
     difference (spec_entry m k b) = get_num m k - b \<and>
     difference_percent (spec_entry m k b) = (get_num m k - b) / b * 100 \<and>
     (performance_entry.status (spec_entry m k b) = ''above'' \<longleftrightarrow> b < get_num m k) \<and>
     (performance_entry.status (spec_entry m k b) = ''below'' \<longleftrightarrow> get_num m k < b) \<and>
     (performance_entry.status (spec_entry m k b) = ''at'' \<longleftrightarrow> get_num m k = b)"
  by (auto simp add: spec_entry_def spec_status_def)

lemma compare_to_benchmarks_lookup:
  assumes "(k, b) \<in> {(''open_rate'', 0.21), (''click_rate'', 0.10), (''unsubscribe_rate'', 0.005)}"
  shows "\<exists>c. compare_to_benchmarks m = Inr c \<and>
           map_of (performance c) k = Some (spec_entry m k b) \<and> 0 < b"
proof -
  from assms consider
    "k = ''open_rate''" "b = 0.21" | "k = ''click_rate''" "b = 0.10"
    | "k = ''unsubscribe_rate''" "b = 0.005"
    by blast
  then show ?thesis
  proof cases
    case 1 show ?thesis unfolding 1 by (simp add: compare_to_benchmarks_total)
  next
    case 2 show ?thesis unfolding 2 by (simp add: compare_to_benchmarks_total)
  next
    case 3 show ?thesis unfolding 3 by (simp add: compare_to_benchmarks_total)
  qed
qed



section \<open>TrendAnalyzer\<close>

text \<open>
  A group of at least two rows has a non-empty first and second half, so none of the six
  divisions fails and the entry is the one of the specification.
\<close>

lemma persona_trend_total:
  assumes "2 \<le> length records"
  shows "persona_trend records = Inr (spec_trend records)"
proof -
  have "0 < length records" using assms by linarith
  then have n: "(of_nat (length records) :: rat) \<noteq> 0" by simp
  have "1 \<le> length records div 2" using assms by linarith
  then have m: "(of_nat (length records div 2) :: rat) \<noteq> 0" by simp
  have "length records div 2 < length records" using assms by linarith
  then have r: "(of_nat (length records - length records div 2) :: rat) \<noteq> 0" by simp
  show ?thesis
    unfolding persona_trend_def Let_def truediv_nonzero [OF n] truediv_nonzero [OF m]
      truediv_nonzero [OF r] try_then_Inr
    by (simp add: spec_trend_def spec_mean_def Let_def min_def)
qed

text \<open>
  The grouping loop keeps the keys distinct and stores, under each persona that occurs,
  its rows in the order of the history.
\<close>

lemma map_of_group_loop:
  "map_of (group_loop hist acc) p =
     (case map_of acc p of
        None \<Rightarrow> if spec_group hist p = [] then None else Some (spec_group hist p)
      | Some old \<Rightarrow> Some (old @ spec_group hist p))"
proof (induction hist arbitrary: acc)
  case Nil
  then show ?case by (simp add: spec_group_def split: option.splits)
next
  case (Cons d rest)
  show ?case
    by (simp add: Cons.IH Let_def update_conv' spec_group_def split: option.splits)
qed

lemma distinct_group_loop:
  "distinct (map fst acc) \<Longrightarrow> distinct (map fst (group_loop hist acc))"
  by (induction hist arbitrary: acc) (simp_all add: Let_def distinct_update)

lemma group_loop_groups:
  "map_of (group_loop hist []) p =
     (if spec_group hist p = [] then None else Some (spec_group hist p))"
  by (simp add: map_of_group_loop)

text \<open>The second loop skips the groups of fewer than two rows and stores an entry for the others.\<close>

lemma trends_loop_small:
  "\<forall>item \<in> set groups. length (snd item) < 2 \<Longrightarrow> trends_loop groups acc = Inr acc"
  by (induction groups arbitrary: acc) (simp_all add: Let_def)

lemma trends_loop_total:
  assumes "distinct (map fst groups)"
  shows "\<exists>ts. trends_loop groups acc = Inr ts \<and>
           (\<forall>p. map_of ts p =
              (case map_of groups p of
                 None \<Rightarrow> map_of acc p
               | Some rs \<Rightarrow> if 2 \<le> length rs then Some (spec_trend rs) else map_of acc p))"
  using assms
proof (induction groups arbitrary: acc)
  case Nil
  then show ?case by simp
next
  case (Cons item rest)
  obtain q rs where item: "item = (q, rs)" by (cases item)
  from Cons.prems item have d: "distinct (map fst rest)" and q: "q \<notin> fst ` set rest" by auto
  from q have qn: "map_of rest q = None" by (simp add: map_of_eq_None_iff)
  show ?case
  proof (cases "length rs < 2")
    case True
    from Cons.IH [OF d, of acc] obtain ts where
      ts: "trends_loop rest acc = Inr ts"
      "\<forall>p. map_of ts p = (case map_of rest p of None \<Rightarrow> map_of acc p
               | Some rs \<Rightarrow> if 2 \<le> length rs then Some (spec_trend rs) else map_of acc p)"
      by blast
    have "trends_loop (item # rest) acc = Inr ts" using True ts(1) item by (simp add: Let_def)
    moreover have "\<forall>p. map_of ts p = (case map_of (item # rest) p of None \<Rightarrow> map_of acc p
               | Some rs \<Rightarrow> if 2 \<le> length rs then Some (spec_trend rs) else map_of acc p)"
      using ts(2) True item qn by simp
    ultimately show ?thesis by blast
  next
    case False
    then have two: "2 \<le> length rs" by simp
    from Cons.IH [OF d, of "AList.update q (spec_trend rs) acc"] obtain ts where
      ts: "trends_loop rest (AList.update q (spec_trend rs) acc) = Inr ts"
      "\<forall>p. map_of ts p = (case map_of rest p of
                 None \<Rightarrow> map_of (AList.update q (spec_trend rs) acc) p
               | Some rs' \<Rightarrow> if 2 \<le> length rs' then Some (spec_trend rs')
                            else map_of (AList.update q (spec_trend rs) acc) p)"
      by blast
    have "trends_loop (item # rest) acc = Inr ts"
      using False ts(1) item by (simp add: Let_def persona_trend_total [OF two])
    moreover have "\<forall>p. map_of ts p = (case map_of (item # rest) p of None \<Rightarrow> map_of acc p
               | Some rs \<Rightarrow> if 2 \<le> length rs then Some (spec_trend rs) else map_of acc p)"
    proof
      fix p
      show "map_of ts p = (case map_of (item # rest) p of None \<Rightarrow> map_of acc p
               | Some rs \<Rightarrow> if 2 \<le> length rs then Some (spec_trend rs) else map_of acc p)"
      proof (cases "p = q")
        case True
        then show ?thesis using ts(2) item qn two by (simp add: update_conv')
      next
        case False
        then show ?thesis using ts(2) item by (simp add: update_conv' split: option.splits)
      qed
    qed
    ultimately show ?thesis by blast
  qed
qed

lemma identify_trends_total:
  assumes "2 \<le> length hist"
  shows "\<exists>ts. identify_trends now hist =
             Inr \<lparr>status = ''success'', message = None,
                  personas_analyzed = Some (length ts), trends = Some ts,
                  analyzed_at = Some now\<rparr> \<and>
           (\<forall>p. map_of ts p =
              (if 2 \<le> length (spec_group hist p)
               then Some (spec_trend (spec_group hist p)) else None))"
proof -
  have "distinct (map fst (group_loop hist []))" by (rule distinct_group_loop) simp
  from trends_loop_total [OF this, of "[]"] obtain ts where
    ts: "trends_loop (group_loop hist []) [] = Inr ts"
    "\<forall>p. map_of ts p =
       (case map_of (group_loop hist []) p of
          None \<Rightarrow> map_of [] p
        | Some rs \<Rightarrow> if 2 \<le> length rs then Some (spec_trend rs) else map_of [] p)"
    by blast
  have "identify_trends now hist =
          Inr \<lparr>status = ''success'', message = None,
               personas_analyzed = Some (length ts), trends = Some ts,
               analyzed_at = Some now\<rparr>"
    using assms ts(1) by (simp add: identify_trends_def Let_def)
  moreover have "\<forall>p. map_of ts p =
              (if 2 \<le> length (spec_group hist p)
               then Some (spec_trend (spec_group hist p)) else None)"
    using ts(2) by (simp add: group_loop_groups)
  ultimately show ?thesis by blast
qed



text \<open>
  C8. On a history of fewer than two rows \<open>identify_trends\<close> returns, without failing, a
  result whose status is \<open>insufficient_data\<close> and that has no trends map.
\<close>

theorem identify_trends_insufficient_data:
  assumes "length hist < 2"
  shows "\<exists>rep. identify_trends now hist = Inr rep \<and>
           trends_report.status rep = ''insufficient_data'' \<and> trends rep = None"
  using assms by (simp add: identify_trends_def)

theorem identify_trends_insufficient_data_witness:
  "length [\<lparr>persona = Some ''a'', open_rate = Some 0.1, click_rate = Some 0.2\<rparr>] < 2 \<and>
   (\<exists>rep. identify_trends ''2024-01-01T00:00:00''
        [\<lparr>persona = Some ''a'', open_rate = Some 0.1, click_rate = Some 0.2\<rparr>] = Inr rep \<and>
      trends_report.status rep = ''insufficient_data'' \<and> trends rep = None)"
proof -
  have h: "length [\<lparr>persona = Some ''a'', open_rate = Some 0.1, click_rate = Some 0.2\<rparr>] < 2"
    by simp
  from identify_trends_insufficient_data [OF h, of "''2024-01-01T00:00:00''"] h
  show ?thesis by blast
qed

text \<open>
  C9. On a history of at least two rows in which no persona occurs in two rows, for
  example two rows of two different personas, \<open>identify_trends\<close> returns the status
  \<open>success\<close> with \<open>personas_analyzed = 0\<close> and an empty trends map, not the
  \<open>insufficient_data\<close> result.
\<close>

theorem identify_trends_no_repeated_persona:
  assumes "2 \<le> length hist" and "\<forall>p. length (spec_group hist p) < 2"
  shows "\<exists>rep. identify_trends now hist = Inr rep \<and>
           trends_report.status rep = ''success'' \<and>
           personas_analyzed rep = Some 0 \<and> trends rep = Some []"
proof -
  have d: "distinct (map fst (group_loop hist []))" by (rule distinct_group_loop) simp
  have "\<forall>item \<in> set (group_loop hist []). length (snd item) < 2"
  proof
    fix item assume "item \<in> set (group_loop hist [])"
    then have "(fst item, snd item) \<in> set (group_loop hist [])" by simp
    with d have "map_of (group_loop hist []) (fst item) = Some (snd item)" by (rule map_of_is_SomeI)
    then have "snd item = spec_group hist (fst item)"
      by (simp add: group_loop_groups split: if_splits)
    then show "length (snd item) < 2" using assms(2) by simp
  qed
  then have "trends_loop (group_loop hist []) [] = Inr []" by (rule trends_loop_small)
  then show ?thesis using assms(1) by (simp add: identify_trends_def Let_def)
qed


theorem identify_trends_no_repeated_persona_witness:
  "2 \<le> length [\<lparr>persona = Some ''founders'', open_rate = Some 0.1, click_rate = Some 0.2\<rparr>,
                \<lparr>persona = Some ''creatives'', open_rate = Some 0.5, click_rate = Some 0.5\<rparr>] \<and>
   (\<forall>p. length (spec_group
        [\<lparr>persona = Some ''founders'', open_rate = Some 0.1, click_rate = Some 0.2\<rparr>,
         \<lparr>persona = Some ''creatives'', open_rate = Some 0.5, click_rate = Some 0.5\<rparr>] p) < 2) \<and>
   (\<exists>rep. identify_trends ''2024-01-01T00:00:00''
        [\<lparr>persona = Some ''founders'', open_rate = Some 0.1, click_rate = Some 0.2\<rparr>,
         \<lparr>persona = Some ''creatives'', open_rate = Some 0.5, click_rate = Some 0.5\<rparr>] = Inr rep \<and>
      trends_report.status rep = ''success'' \<and>
      personas_analyzed rep = Some 0 \<and> trends rep = Some [])"
proof -
  have h: "2 \<le> length [\<lparr>persona = Some ''founders'', open_rate = Some 0.1, click_rate = Some 0.2\<rparr>,
                \<lparr>persona = Some ''creatives'', open_rate = Some 0.5, click_rate = Some 0.5\<rparr>]"
    by simp
  have g: "\<forall>p. length (spec_group
        [\<lparr>persona = Some ''founders'', open_rate = Some 0.1, click_rate = Some 0.2\<rparr>,
         \<lparr>persona = Some ''creatives'', open_rate = Some 0.5, click_rate = Some 0.5\<rparr>] p) < 2"
    by (simp add: spec_group_def get_persona_def)
  from identify_trends_no_repeated_persona [OF h g, of "''2024-01-01T00:00:00''"] h g
  show ?thesis by blast
qed

end
